theory Spec2Isabelle
  imports Main "HOL-Library.Word"
begin

section \<open>The file server: configuration\<close>

text \<open>
  A shallow embedding of the upload, serve and delete handlers of the file server
  (the version with WebP conversion). Go strings are byte sequences and are modelled as
  \<open>string\<close>; file contents are lists of bytes; \<open>int64\<close> sizes are modelled as \<open>int\<close>
  (they are lengths of files and never come near the 64-bit range).
\<close>

type_synonym byte = "8 word"

definition UploadDir :: string where
  "UploadDir = ''./uploads''"

definition Port :: string where
  "Port = '':4000''"

definition BaseURL :: string where
  "BaseURL = ''http://localhost'' @ Port"

definition MaxFileSize :: int where
  "MaxFileSize = 50 * 2 ^ 20"

definition MaxMemory :: int where
  "MaxMemory = 32 * 2 ^ 20"

definition WebPQuality :: int where
  "WebPQuality = 80"

definition ConvertToWebP :: bool where
  "ConvertToWebP = True"

section \<open>Strings\<close>

text \<open>\<open>strings.HasPrefix\<close>, \<open>strings.TrimPrefix\<close> and \<open>strings.Contains\<close>.\<close>

definition HasPrefix :: "string \<Rightarrow> string \<Rightarrow> bool" where
  "HasPrefix s p = (take (length p) s = p)"

definition TrimPrefix :: "string \<Rightarrow> string \<Rightarrow> string" where
  "TrimPrefix s p = (if HasPrefix s p then drop (length p) s else s)"

fun Contains :: "string \<Rightarrow> string \<Rightarrow> bool" where
  "Contains [] sub = (sub = [])"
| "Contains (c # cs) sub = (HasPrefix (c # cs) sub \<or> Contains cs sub)"

text \<open>The verb \<open>%d\<close> of \<open>fmt.Sprintf\<close> on an integer.\<close>

definition digit_char :: "nat \<Rightarrow> char" where
  "digit_char d = ''0123456789'' ! d"

fun digits_of :: "nat \<Rightarrow> string" where
  "digits_of n = (if n < 10 then [digit_char n]
                  else digits_of (n div 10) @ [digit_char (n mod 10)])"

declare digits_of.simps [simp del]

definition itoa :: "int \<Rightarrow> string" where
  "itoa i = (if i < 0 then CHR ''-'' # digits_of (nat (- i)) else digits_of (nat i))"

text \<open>
  \<open>strings.ToLower\<close>: a string of ASCII bytes has its letters \<open>A\<close> to \<open>Z\<close> replaced by
  \<open>a\<close> to \<open>z\<close>; any other string goes through the Unicode case mapping, which is a
  parameter of the model (see \<open>unicode_ToLower\<close> below).
\<close>

definition isASCII :: "string \<Rightarrow> bool" where
  "isASCII s = list_all (\<lambda>c. (of_char c :: nat) < 128) s"

definition lower_byte :: "char \<Rightarrow> char" where
  "lower_byte c =
     (case map_of (zip ''ABCDEFGHIJKLMNOPQRSTUVWXYZ'' ''abcdefghijklmnopqrstuvwxyz'') c of
        Some l \<Rightarrow> l
      | None \<Rightarrow> c)"

text \<open>
  \<open>filepath.Ext\<close>: scan from the end of the path; stop with the empty extension at a
  path separator, and with the suffix that starts at the dot at the first dot met.
\<close>

fun Ext_scan :: "(char \<Rightarrow> bool) \<Rightarrow> string \<Rightarrow> string \<Rightarrow> string" where
  "Ext_scan sep [] acc = []"
| "Ext_scan sep (c # cs) acc =
     (if sep c then [] else if c = CHR ''.'' then c # acc else Ext_scan sep cs (c # acc))"

text \<open>
  \<open>filepath.Clean\<close> and \<open>filepath.Join\<close> as on a POSIX system, where the separator is
  the slash and there is no volume name. \<open>Clean\<close> reads the path element by element: an
  empty element and the element \<open>.\<close> are dropped; the element \<open>..\<close> removes the element
  written last, unless none is left to remove, in which case it is written if the path is
  not rooted and dropped if it is; any other element is written. The elements written are
  joined by single slashes, after the leading slash of a rooted path, and an empty result
  is \<open>.\<close>. \<open>Join\<close> cleans the elements joined by slashes, from the first one that is not
  empty on.
\<close>

fun split_sep :: "string \<Rightarrow> string list" where
  "split_sep [] = [[]]"
| "split_sep (c # cs) =
     (if c = CHR ''/'' then [] # split_sep cs
      else (case split_sep cs of e # es \<Rightarrow> (c # e) # es | [] \<Rightarrow> [[c]]))"

fun clean_elems :: "bool \<Rightarrow> string list \<Rightarrow> string list \<Rightarrow> string list" where
  "clean_elems rooted out [] = rev out"
| "clean_elems rooted out (e # es) =
     (if e = [] \<or> e = ''.'' then clean_elems rooted out es
      else if e = ''..'' then
        (case out of
           lst # rest \<Rightarrow>
             if lst \<noteq> ''..'' then clean_elems rooted rest es
             else if \<not> rooted then clean_elems rooted (''..'' # out) es
             else clean_elems rooted out es
         | [] \<Rightarrow>
             if \<not> rooted then clean_elems rooted [''..''] es
             else clean_elems rooted out es)
      else clean_elems rooted (e # out) es)"

fun join_sep :: "string list \<Rightarrow> string" where
  "join_sep [] = []"
| "join_sep [e] = e"
| "join_sep (e # es) = e @ CHR ''/'' # join_sep es"

definition Clean :: "string \<Rightarrow> string" where
  "Clean path =
     (if path = [] then ''.''
      else if hd path = CHR ''/'' then
        CHR ''/'' # join_sep (clean_elems True [] (split_sep path))
      else if clean_elems False [] (split_sep path) = [] then ''.''
      else join_sep (clean_elems False [] (split_sep path)))"

definition Join :: "string \<Rightarrow> string \<Rightarrow> string" where
  "Join dir name =
     (if dir \<noteq> [] then Clean (dir @ ''/'' @ name)
      else if name \<noteq> [] then Clean name
      else [])"

section \<open>The world outside the program\<close>

text \<open>
  Everything the handlers obtain from libraries and from the operating system is a field
  of the world: the image codecs, the platform's path functions, the random identifier,
  and which system calls fail. A decoder is given the bytes that remain in the stream and
  returns the image, if any, with the number of bytes it consumed. The encoder returns
  the bytes it wrote to the destination and whether it succeeded. \<open>io_Copy_fault = Some n\<close>
  means that the copy breaks after \<open>n\<close> bytes. \<open>Sprintf_2f n\<close> is the text that the verb
  \<open>%.2f\<close> gives for \<open>float64(n)/(1<<20)\<close>: floating point is not modelled.
\<close>

record 'img world =
  IsPathSeparator :: "char \<Rightarrow> bool"
  filepath_Join :: "string \<Rightarrow> string \<Rightarrow> string"
  unicode_ToLower :: "string \<Rightarrow> string"
  Sprintf_2f :: "int \<Rightarrow> string"
  uuid_New :: string
  jpeg_Decode :: "byte list \<Rightarrow> 'img option \<times> nat"
  png_Decode :: "byte list \<Rightarrow> 'img option \<times> nat"
  gif_Decode :: "byte list \<Rightarrow> 'img option \<times> nat"
  webp_Encode :: "'img \<Rightarrow> bool \<Rightarrow> int \<Rightarrow> byte list \<times> bool"
  os_Create_fails :: "string \<Rightarrow> bool"
  io_Copy_fault :: "nat option"
  File_Stat_fails :: "string \<Rightarrow> bool"
  os_Stat_fails :: "string \<Rightarrow> bool"
  os_Remove_fails :: "string \<Rightarrow> bool"

definition ToLower :: "'img world \<Rightarrow> string \<Rightarrow> string" where
  "ToLower w s = (if isASCII s then map lower_byte s else unicode_ToLower w s)"

definition Ext :: "'img world \<Rightarrow> string \<Rightarrow> string" where
  "Ext w path = Ext_scan (IsPathSeparator w) (rev path) []"

section \<open>State: the files, the system calls made, the counters\<close>

record Stats =
  Uploads :: int
  Gets :: int
  Deletes :: int

datatype fs_op =
    OpStat string
  | OpCreate string
  | OpWrite string
  | OpRemove string
  | OpServe string

record state =
  files :: "string \<Rightarrow> byte list option"
  ops :: "fs_op list"
  stats :: Stats

definition log_op :: "fs_op \<Rightarrow> state \<Rightarrow> state" where
  "log_op x st = st\<lparr>ops := ops st @ [x]\<rparr>"

text \<open>\<open>os.Create\<close> creates the file or truncates it; the result says whether it succeeded.\<close>

definition os_Create :: "'img world \<Rightarrow> string \<Rightarrow> state \<Rightarrow> bool \<times> state" where
  "os_Create w p st =
     (if os_Create_fails w p then (False, log_op (OpCreate p) st)
      else (True, log_op (OpCreate p) (st\<lparr>files := (files st)(p \<mapsto> [])\<rparr>)))"

definition file_Write :: "string \<Rightarrow> byte list \<Rightarrow> state \<Rightarrow> state" where
  "file_Write p bs st =
     log_op (OpWrite p)
       (st\<lparr>files := (files st)(p \<mapsto> (case files st p of None \<Rightarrow> bs | Some old \<Rightarrow> old @ bs))\<rparr>)"

text \<open>\<open>os.Remove\<close> fails on a missing file or when the world refuses; then nothing changes.\<close>

definition os_Remove :: "'img world \<Rightarrow> string \<Rightarrow> state \<Rightarrow> bool \<times> state" where
  "os_Remove w p st =
     (if os_Remove_fails w p \<or> files st p = None then (False, log_op (OpRemove p) st)
      else (True, log_op (OpRemove p) (st\<lparr>files := (files st)(p := None)\<rparr>)))"

datatype stat_result = StatOK int | StatNotExist | StatError

definition os_Stat :: "'img world \<Rightarrow> string \<Rightarrow> state \<Rightarrow> stat_result \<times> state" where
  "os_Stat w p st =
     (if os_Stat_fails w p then (StatError, log_op (OpStat p) st)
      else case files st p of
             None \<Rightarrow> (StatNotExist, log_op (OpStat p) st)
           | Some bs \<Rightarrow> (StatOK (int (length bs)), log_op (OpStat p) st))"

text \<open>\<open>dst.Stat()\<close> on the open destination file.\<close>

definition File_Stat :: "'img world \<Rightarrow> string \<Rightarrow> state \<Rightarrow> int option \<times> state" where
  "File_Stat w p st =
     (if File_Stat_fails w p then (None, log_op (OpStat p) st)
      else case files st p of
             None \<Rightarrow> (None, log_op (OpStat p) st)
           | Some bs \<Rightarrow> (Some (int (length bs)), log_op (OpStat p) st))"

section \<open>Streams\<close>

text \<open>
  An \<open>io.Reader\<close>: its bytes, the read position, and whether it is also an \<open>io.Seeker\<close>.
  A \<open>multipart.File\<close> always is.
\<close>

record reader =
  content :: "byte list"
  offset :: nat
  seekable :: bool

definition multipart_File :: "byte list \<Rightarrow> reader" where
  "multipart_File bytes = \<lparr>content = bytes, offset = 0, seekable = True\<rparr>"

definition rewind :: "reader \<Rightarrow> reader" where
  "rewind src = (if seekable src then src\<lparr>offset := 0\<rparr> else src)"

definition remaining :: "reader \<Rightarrow> byte list" where
  "remaining src = drop (offset src) (content src)"

definition advance :: "nat \<Rightarrow> reader \<Rightarrow> reader" where
  "advance n src = src\<lparr>offset := offset src + min n (length (remaining src))\<rparr>"

text \<open>
  \<open>io.Copy(dst, src)\<close>: the bytes that remain in the stream are appended to the
  destination; the result is the number of bytes written and whether the copy succeeded.
\<close>

definition io_Copy :: "'img world \<Rightarrow> string \<Rightarrow> reader \<Rightarrow> state \<Rightarrow> int \<times> bool \<times> state" where
  "io_Copy w p src st =
     (case io_Copy_fault w of
        None \<Rightarrow> (int (length (remaining src)), True, file_Write p (remaining src) st)
      | Some n \<Rightarrow> (int (length (take n (remaining src))), False,
                   file_Write p (take n (remaining src)) st))"

section \<open>Classification, conversion and the verbatim writer\<close>

definition isImageFile :: "string \<Rightarrow> bool" where
  "isImageFile ext =
     (if ext = ''.jpg'' \<or> ext = ''.jpeg'' \<or> ext = ''.png'' \<or> ext = ''.gif'' then True else False)"

datatype convert_error =
    UnsupportedFormat string
  | DecodeFailed
  | CreateFailed
  | EncodeFailed
  | StatFailed

definition decoder_for :: "'img world \<Rightarrow> string \<Rightarrow> (byte list \<Rightarrow> 'img option \<times> nat) option" where
  "decoder_for w originalExt =
     (if originalExt = ''.jpg'' \<or> originalExt = ''.jpeg'' then Some (jpeg_Decode w)
      else if originalExt = ''.png'' then Some (png_Decode w)
      else if originalExt = ''.gif'' then Some (gif_Decode w)
      else None)"

definition convertToWebP ::
  "'img world \<Rightarrow> reader \<Rightarrow> string \<Rightarrow> string \<Rightarrow> state \<Rightarrow> (convert_error + int) \<times> reader \<times> state" where
  "convertToWebP w src outputPath originalExt st =
     (let src1 = rewind src in
      case decoder_for w originalExt of
        None \<Rightarrow> (Inl (UnsupportedFormat originalExt), src1, st)
      | Some dec \<Rightarrow>
          (case dec (remaining src1) of
             (None, n) \<Rightarrow> (Inl DecodeFailed, advance n src1, st)
           | (Some img, n) \<Rightarrow>
               (case os_Create w outputPath st of
                  (False, st1) \<Rightarrow> (Inl CreateFailed, advance n src1, st1)
                | (True, st1) \<Rightarrow>
                    (case webp_Encode w img False WebPQuality of
                       (out, False) \<Rightarrow>
                         (Inl EncodeFailed, advance n src1,
                          snd (os_Remove w outputPath (file_Write outputPath out st1)))
                     | (out, True) \<Rightarrow>
                         (case File_Stat w outputPath (file_Write outputPath out st1) of
                            (None, st3) \<Rightarrow> (Inl StatFailed, advance n src1, st3)
                          | (Some sz, st3) \<Rightarrow> (Inr sz, advance n src1, st3))))))"

definition saveOriginalFile :: "'img world \<Rightarrow> reader \<Rightarrow> string \<Rightarrow> state \<Rightarrow> int \<times> state" where
  "saveOriginalFile w src outputPath st =
     (let src1 = rewind src in
      case os_Create w outputPath st of
        (False, st1) \<Rightarrow> (0, st1)
      | (True, st1) \<Rightarrow>
          (case io_Copy w outputPath src1 st1 of
             (written, False, st2) \<Rightarrow> (0, snd (os_Remove w outputPath st2))
           | (written, True, st2) \<Rightarrow> (written, st2)))"

section \<open>Requests and responses\<close>

text \<open>
  A request as the handlers see it. \<open>body_size\<close> is the number of bytes the multipart
  reader has to read from the body, \<open>body_limit\<close> the bound that \<open>http.MaxBytesReader\<close>
  puts on it, \<open>form_error\<close> a failure of the multipart parser itself, and \<open>form_file\<close> the
  file parts of the form by field name, each with its header and its bytes.
\<close>

record FileHeader =
  fh_Filename :: string
  fh_Size :: int

record request =
  Method :: string
  URL_Path :: string
  body_size :: int
  body_limit :: "int option"
  form_error :: "string option"
  form_file :: "string \<Rightarrow> (FileHeader \<times> byte list) option"

record UploadResponse =
  URL :: string
  Filename :: string
  OriginalExt :: string
  Size :: int
  Converted :: bool
  Message :: string

text \<open>
  What a handler sends: \<open>ErrorResponse error code message\<close> is \<open>sendErrorResponse\<close>, with
  \<open>code\<close> also the HTTP status; \<open>Created\<close> is status 201 with the upload's description;
  \<open>ServedFile\<close> is \<open>http.ServeFile\<close> on a path; \<open>Deleted\<close> reports a removed file.
\<close>

datatype response =
    ErrorResponse string int string
  | Created UploadResponse
  | ServedFile string int
  | Deleted string int

definition MaxBytesReader :: "request \<Rightarrow> int \<Rightarrow> request" where
  "MaxBytesReader r n = r\<lparr>body_limit := Some n\<rparr>"

text \<open>
  \<open>r.ParseMultipartForm\<close>: reading a body longer than the bound fails with the error of
  the bounded reader; otherwise the parser's own outcome stands. The result is the error
  text, if any. The memory limit only decides where the parts are kept.
\<close>

definition ParseMultipartForm :: "request \<Rightarrow> int \<Rightarrow> string option" where
  "ParseMultipartForm r maxMemory =
     (case body_limit r of
        None \<Rightarrow> form_error r
      | Some n \<Rightarrow> if n < body_size r then Some ''http: request body too large'' else form_error r)"

definition FormFile :: "request \<Rightarrow> string \<Rightarrow> (FileHeader \<times> byte list) option" where
  "FormFile r key = form_file r key"

section \<open>The handlers\<close>

definition maxRequestSize :: int where
  "maxRequestSize = MaxFileSize + 10 * 2 ^ 20"

text \<open>
  The storing part of \<open>handleUpload\<close>: from the lower-cased extension and the fresh
  identifier to the stored name, the converted flag and the final size.
\<close>

definition storeUpload ::
  "'img world \<Rightarrow> reader \<Rightarrow> FileHeader \<Rightarrow> state \<Rightarrow> string \<times> bool \<times> int \<times> state" where
  "storeUpload w file handler st =
     (let originalExt = ToLower w (Ext w (fh_Filename handler));
          id = uuid_New w
      in if ConvertToWebP \<and> isImageFile originalExt then
           (let webpFilename = id @ ''.webp'';
                webpPath = filepath_Join w UploadDir webpFilename
            in case convertToWebP w file webpPath originalExt st of
                 (Inl err, file1, st1) \<Rightarrow>
                   (case saveOriginalFile w file1 (filepath_Join w UploadDir (id @ originalExt)) st1 of
                      (finalSize, st2) \<Rightarrow> (id @ originalExt, False, finalSize, st2))
               | (Inr convertedSize, file1, st1) \<Rightarrow> (webpFilename, True, convertedSize, st1))
         else
           (case saveOriginalFile w file (filepath_Join w UploadDir (id @ originalExt)) st of
              (finalSize, st1) \<Rightarrow> (id @ originalExt, False, finalSize, st1)))"

definition handleUpload :: "'img world \<Rightarrow> request \<Rightarrow> state \<Rightarrow> response \<times> state" where
  "handleUpload w r0 st =
     (if Method r0 \<noteq> ''POST'' then
        (ErrorResponse ''Method not allowed'' 405 ''Use POST method'', st)
      else
        (let r = MaxBytesReader r0 maxRequestSize in
         case ParseMultipartForm r MaxMemory of
           Some errStr \<Rightarrow>
             (if Contains errStr ''too large'' \<or>
                 Contains errStr ''multipart: message too large'' \<or>
                 Contains errStr ''http: request body too large''
              then (ErrorResponse ''File too large'' 413
                      (''Request size exceeds limit. Max file size: '' @
                       itoa (MaxFileSize div 2 ^ 20) @ '' MB''), st)
              else (ErrorResponse ''Invalid form'' 400 (''Form data invalid: '' @ errStr), st))
         | None \<Rightarrow>
             (case FormFile r ''file'' of
                None \<Rightarrow>
                  (ErrorResponse ''No file provided'' 400 ''No file found in form data'', st)
              | Some (handler, bytes) \<Rightarrow>
                  (if MaxFileSize < fh_Size handler then
                     (ErrorResponse ''File too large'' 413
                        (''File size ('' @ itoa (fh_Size handler) @ '' bytes = '' @
                         Sprintf_2f w (fh_Size handler) @ '' MB) exceeds '' @
                         itoa (MaxFileSize div 2 ^ 20) @ '' MB limit''), st)
                   else
                     (case storeUpload w (multipart_File bytes) handler st of
                        (filename, converted, finalSize, st1) \<Rightarrow>
                          (if finalSize = 0 then
                             (ErrorResponse ''Save failed'' 500 ''Could not save file'', st1)
                           else
                             (Created \<lparr>URL = BaseURL @ ''/uploads/'' @ filename,
                                       Filename = filename,
                                       OriginalExt = ToLower w (Ext w (fh_Filename handler)),
                                       Size = finalSize,
                                       Converted = converted,
                                       Message = ''File uploaded successfully''\<rparr>,
                              st1\<lparr>stats := (stats st1)\<lparr>Uploads := Uploads (stats st1) + 1\<rparr>\<rparr>)))))))"

definition invalid_filename :: "string \<Rightarrow> bool" where
  "invalid_filename filename =
     (filename = [] \<or> Contains filename ''..'' \<or> Contains filename ''/'')"

definition handleServeFile :: "'img world \<Rightarrow> request \<Rightarrow> state \<Rightarrow> response \<times> state" where
  "handleServeFile w r st =
     (if Method r \<noteq> ''GET'' then
        (ErrorResponse ''Method not allowed'' 405 ''Use GET method'', st)
      else if \<not> HasPrefix (URL_Path r) ''/uploads/'' \<and> \<not> HasPrefix (URL_Path r) ''/get/'' then
        (ErrorResponse ''Invalid path'' 400 ''Invalid file path'', st)
      else
        (let filename = (if HasPrefix (URL_Path r) ''/uploads/''
                         then TrimPrefix (URL_Path r) ''/uploads/''
                         else TrimPrefix (URL_Path r) ''/get/'')
         in if invalid_filename filename then
              (ErrorResponse ''Invalid filename'' 400 ''Filename contains invalid characters'', st)
            else
              (case os_Stat w (filepath_Join w UploadDir filename) st of
                 (StatNotExist, st1) \<Rightarrow>
                   (ErrorResponse ''File not found'' 404
                      (''File '' @ [CHR 0x27] @ filename @ [CHR 0x27] @ '' does not exist''), st1)
               | (StatError, st1) \<Rightarrow>
                   (ErrorResponse ''File access error'' 500 ''Could not access file'', st1)
               | (StatOK sz, st1) \<Rightarrow>
                   (ServedFile (filepath_Join w UploadDir filename) sz,
                    (log_op (OpServe (filepath_Join w UploadDir filename)) st1)
                      \<lparr>stats := (stats st1)\<lparr>Gets := Gets (stats st1) + 1\<rparr>\<rparr>))))"

definition handleDelete :: "'img world \<Rightarrow> request \<Rightarrow> state \<Rightarrow> response \<times> state" where
  "handleDelete w r st =
     (if Method r \<noteq> ''DELETE'' then
        (ErrorResponse ''Method not allowed'' 405 ''Use DELETE method'', st)
      else
        (let filename = TrimPrefix (URL_Path r) ''/delete/''
         in if invalid_filename filename then
              (ErrorResponse ''Invalid filename'' 400 ''Filename contains invalid characters'', st)
            else
              (case os_Stat w (filepath_Join w UploadDir filename) st of
                 (StatNotExist, st1) \<Rightarrow>
                   (ErrorResponse ''File not found'' 404
                      (''File '' @ [CHR 0x27] @ filename @ [CHR 0x27] @ '' does not exist''), st1)
               | (StatError, st1) \<Rightarrow>
                   (ErrorResponse ''File access error'' 500 ''Could not access file'', st1)
               | (StatOK sz, st1) \<Rightarrow>
                   (case os_Remove w (filepath_Join w UploadDir filename) st1 of
                      (False, st2) \<Rightarrow>
                        (ErrorResponse ''Delete failed'' 500 ''Could not delete file'', st2)
                    | (True, st2) \<Rightarrow>
                        (Deleted filename sz,
                         st2\<lparr>stats := (stats st2)\<lparr>Deletes := Deletes (stats st2) + 1\<rparr>\<rparr>)))))"

section \<open>A sample world and sample requests\<close>

text \<open>
  A world in which every system call succeeds, paths are joined by \<open>Join\<close>, and each
  decoder accepts the inputs that start with its format's signature; the samples below
  give the PNG decoder a complete PNG file or bytes without the signature only. The case
  mapping of non-ASCII names is never reached by the samples, whose names are ASCII. The
  rendering of \<open>%.2f\<close> is computed on integers, rounding to the nearest hundredth, ties
  to even: this is what the verb prints for sizes below \<open>2 ^ 53\<close>.
\<close>

definition mib_2f :: "int \<Rightarrow> string" where
  "mib_2f n =
     (let q = (n * 100) div 2 ^ 20;
          r = (n * 100) mod 2 ^ 20;
          h = (if 2 ^ 19 < r \<or> (r = 2 ^ 19 \<and> odd q) then q + 1 else q)
      in itoa (h div 100) @ ''.'' @
         [digit_char (nat ((h mod 100) div 10)), digit_char (nat (h mod 10))])"

text \<open>A complete PNG file of 70 bytes: one pixel, eight bits a channel, with alpha.\<close>

definition tiny_png :: "byte list" where
  "tiny_png =
     [0x89, 0x50, 0x4E, 0x47, 0x0D, 0x0A, 0x1A, 0x0A, 0x00, 0x00, 0x00, 0x0D, 0x49, 0x48,
      0x44, 0x52, 0x00, 0x00, 0x00, 0x01, 0x00, 0x00, 0x00, 0x01, 0x08, 0x06, 0x00, 0x00,
      0x00, 0x1F, 0x15, 0xC4, 0x89, 0x00, 0x00, 0x00, 0x0D, 0x49, 0x44, 0x41, 0x54, 0x78,
      0xDA, 0x63, 0x64, 0x60, 0xF8, 0x5F, 0x0F, 0x00, 0x02, 0x87, 0x01, 0x80, 0xEB, 0x47,
      0xBA, 0x92, 0x00, 0x00, 0x00, 0x00, 0x49, 0x45, 0x4E, 0x44, 0xAE, 0x42, 0x60, 0x82]"

definition signature_decoder :: "byte list \<Rightarrow> byte list \<Rightarrow> byte list option \<times> nat" where
  "signature_decoder sig bs =
     (if take (length sig) bs = sig then (Some bs, length bs)
      else (None, min (length sig) (length bs)))"

definition sample_world :: "byte list world" where
  "sample_world =
     \<lparr>IsPathSeparator = (\<lambda>c. c = CHR ''/''),
      filepath_Join = Join,
      unicode_ToLower = (\<lambda>s. s),
      Sprintf_2f = mib_2f,
      uuid_New = ''3f2b8c1e-77aa-4d0c-9e51-0b6d2f4a9c10'',
      jpeg_Decode = signature_decoder [0xFF, 0xD8],
      png_Decode = signature_decoder [0x89, 0x50, 0x4E, 0x47],
      gif_Decode = signature_decoder [0x47, 0x49, 0x46, 0x38],
      webp_Encode = (\<lambda>img lossless quality. ([0x52, 0x49, 0x46, 0x46] @ take 2 img, True)),
      os_Create_fails = (\<lambda>p. False),
      io_Copy_fault = None,
      File_Stat_fails = (\<lambda>p. False),
      os_Stat_fails = (\<lambda>p. False),
      os_Remove_fails = (\<lambda>p. False)\<rparr>"

text \<open>Worlds with one fault each: no file can be created; the copy breaks after two
  bytes; the encoder fails after writing two bytes.\<close>

definition readonly_world :: "byte list world" where
  "readonly_world = sample_world\<lparr>os_Create_fails := (\<lambda>p. True)\<rparr>"

definition broken_copy_world :: "byte list world" where
  "broken_copy_world = sample_world\<lparr>io_Copy_fault := Some 2\<rparr>"

definition broken_encoder_world :: "byte list world" where
  "broken_encoder_world =
     sample_world\<lparr>webp_Encode := (\<lambda>img lossless quality. ([0x52, 0x49], False))\<rparr>"

definition empty_state :: state where
  "empty_state = \<lparr>files = (\<lambda>p. None), ops = [], stats = \<lparr>Uploads = 0, Gets = 0, Deletes = 0\<rparr>\<rparr>"

text \<open>
  A state in which the upload directory holds one file, and a state in which the path of
  the upload directory itself is an entry of the file system.
\<close>

definition stored_state :: state where
  "stored_state = empty_state\<lparr>files := (\<lambda>p. None)(''uploads/a.txt'' \<mapsto> [0x68, 0x69])\<rparr>"

definition upload_dir_state :: state where
  "upload_dir_state = empty_state\<lparr>files := (\<lambda>p. None)(''uploads'' \<mapsto> [])\<rparr>"

text \<open>A POST of one file in the field \<open>file\<close>, with the size the parser reports for it.\<close>

definition post_file :: "string \<Rightarrow> byte list \<Rightarrow> request" where
  "post_file name bytes =
     \<lparr>Method = ''POST'', URL_Path = ''/upload'',
      body_size = int (length bytes) + 200,
      body_limit = None, form_error = None,
      form_file = (\<lambda>key. if key = ''file''
                           then Some (\<lparr>fh_Filename = name, fh_Size = int (length bytes)\<rparr>, bytes)
                           else None)\<rparr>"

text \<open>A payload of \<open>n\<close> zero bytes.\<close>

definition zeros :: "nat \<Rightarrow> byte list" where
  "zeros n = replicate n 0"

definition plain_request :: "string \<Rightarrow> string \<Rightarrow> request" where
  "plain_request method path =
     \<lparr>Method = method, URL_Path = path, body_size = 0, body_limit = None,
      form_error = None, form_file = (\<lambda>key. None)\<rparr>"

text \<open>The requests that pass every check of \<open>handleUpload\<close> before the file is stored.\<close>

definition upload_accepted :: "request \<Rightarrow> FileHeader \<Rightarrow> byte list \<Rightarrow> bool" where
  "upload_accepted r handler bytes =
     (Method r = ''POST'' \<and> body_size r \<le> maxRequestSize \<and> form_error r = None \<and>
      form_file r ''file'' = Some (handler, bytes) \<and> fh_Size handler \<le> MaxFileSize)"

section \<open>Facts about the string functions\<close>

text \<open>\<open>Contains\<close> is the substring test.\<close>

lemma Contains_iff: "Contains s sub \<longleftrightarrow> (\<exists>a b. s = a @ sub @ b)"
proof (induction s)
  case Nil
  then show ?case by auto
next
  case (Cons c cs)
  show ?case
  proof
    assume "Contains (c # cs) sub"
    then consider "HasPrefix (c # cs) sub" | "Contains cs sub" by auto
    then show "\<exists>a b. c # cs = a @ sub @ b"
    proof cases
      case 1
      then have "c # cs = [] @ sub @ drop (length sub) (c # cs)"
        unfolding HasPrefix_def by (metis append_Nil append_take_drop_id)
      then show ?thesis by blast
    next
      case 2
      then obtain a b where "cs = a @ sub @ b" using Cons.IH by auto
      then have "c # cs = (c # a) @ sub @ b" by simp
      then show ?thesis by blast
    qed
  next
    assume "\<exists>a b. c # cs = a @ sub @ b"
    then obtain a b where ab: "c # cs = a @ sub @ b" by auto
    show "Contains (c # cs) sub"
    proof (cases a)
      case Nil
      then have "HasPrefix (c # cs) sub" using ab by (simp add: HasPrefix_def)
      then show ?thesis by simp
    next
      case (Cons x xs)
      then have "cs = xs @ sub @ b" using ab by simp
      then have "Contains cs sub" using Cons.IH by blast
      then show ?thesis by simp
    qed
  qed
qed

section \<open>The format classifier\<close>

text \<open>
  Claim C6. The classifier, \<open>isImageFile\<close> applied to the lower-cased extension as
  \<open>handleUpload\<close> applies it, is a total function with no error result: it accepts exactly
  the four spellings \<open>.jpg\<close>, \<open>.jpeg\<close>, \<open>.png\<close>, \<open>.gif\<close> of three raster formats, it
  rejects the empty extension, and on ASCII extensions its answer depends only on the
  lower-cased form, so that two extensions that differ in case only are classified alike.
\<close>

theorem isImageFile_classifier:
  "(isImageFile e \<longleftrightarrow> e \<in> {''.jpg'', ''.jpeg'', ''.png'', ''.gif''}) \<and>
   \<not> isImageFile (ToLower w []) \<and>
   (isASCII a \<longrightarrow>
      (isImageFile (ToLower w a) \<longleftrightarrow>
       map lower_byte a \<in> {''.jpg'', ''.jpeg'', ''.png'', ''.gif''})) \<and>
   (isASCII a \<and> isASCII b \<and> map lower_byte a = map lower_byte b \<longrightarrow>
      isImageFile (ToLower w a) = isImageFile (ToLower w b))"
  by (simp add: isImageFile_def ToLower_def isASCII_def)

theorem isImageFile_classifier_witness:
  "isASCII ''.PNG'' \<and> isASCII ''.png'' \<and> map lower_byte ''.PNG'' = map lower_byte ''.png'' \<and>
   isImageFile (ToLower sample_world ''.PNG'') = isImageFile (ToLower sample_world ''.png'') \<and>
   isImageFile (ToLower sample_world ''.PNG'') \<and>
   \<not> isImageFile (ToLower sample_world ''.txt'')"
  using isImageFile_classifier [of "''.PNG''" sample_world "''.PNG''" "''.png''"]
  by (simp add: isASCII_def lower_byte_def isImageFile_def ToLower_def)

section \<open>Serving and deleting: the filename check\<close>

text \<open>
  A request with a filename that passes the check reaches the file system: the first thing
  the handler does is a \<open>Stat\<close>, and the log of system calls shows it.
\<close>

lemma handleServeFile_valid_stats:
  assumes "Method r = ''GET''"
      and "HasPrefix (URL_Path r) ''/uploads/'' \<or> HasPrefix (URL_Path r) ''/get/''"
      and "\<not> invalid_filename (if HasPrefix (URL_Path r) ''/uploads/''
                                then TrimPrefix (URL_Path r) ''/uploads/''
                                else TrimPrefix (URL_Path r) ''/get/'')"
  shows "\<exists>p rest. ops (snd (handleServeFile w r st)) = ops st @ OpStat p # rest"
  using assms
  by (auto simp add: handleServeFile_def os_Stat_def log_op_def Let_def split: option.splits)

lemma handleDelete_valid_stats:
  assumes "Method r = ''DELETE''"
      and "\<not> invalid_filename (TrimPrefix (URL_Path r) ''/delete/'')"
  shows "\<exists>p rest. ops (snd (handleDelete w r st)) = ops st @ OpStat p # rest"
  using assms
  by (auto simp add: handleDelete_def os_Stat_def os_Remove_def log_op_def Let_def
      split: option.splits)

text \<open>Facts about \<open>Join\<close> on the names that pass the check.\<close>

lemma Contains_single: "Contains s [c] \<longleftrightarrow> c \<in> set s"
  by (induction s) (auto simp add: HasPrefix_def)

lemma split_sep_no_sep: "CHR ''/'' \<notin> set s \<Longrightarrow> split_sep s = [s]"
  by (induction s) auto

lemma split_sep_upload:
  "CHR ''/'' \<notin> set s \<Longrightarrow> split_sep (''./uploads/'' @ s) = [''.'', ''uploads'', s]"
  by (simp add: split_sep_no_sep)

lemma Join_upload_child:
  assumes "filename \<noteq> []" and "\<not> Contains filename ''..''" and "\<not> Contains filename ''/''"
      and "filename \<noteq> ''.''"
  shows "Join UploadDir filename = ''uploads/'' @ filename"
proof -
  have ns: "CHR ''/'' \<notin> set filename" using assms(3) by (simp add: Contains_single)
  have nd: "filename \<noteq> ''..''"
  proof
    assume "filename = ''..''"
    then have "Contains filename ''..''" by (simp add: HasPrefix_def)
    then show False using assms(2) by simp
  qed
  show ?thesis
    using assms(1,4) nd split_sep_upload [OF ns]
    by (simp add: Join_def Clean_def UploadDir_def)
qed

text \<open>With a name that passes the check, a handler touches the joined path only.\<close>

lemma serve_touches_child:
  assumes "Method r = ''GET''"
      and "HasPrefix (URL_Path r) ''/uploads/'' \<and> TrimPrefix (URL_Path r) ''/uploads/'' = filename \<or>
           \<not> HasPrefix (URL_Path r) ''/uploads/'' \<and> HasPrefix (URL_Path r) ''/get/'' \<and>
           TrimPrefix (URL_Path r) ''/get/'' = filename"
      and "\<not> invalid_filename filename"
      and "filepath_Join w UploadDir filename = p"
  shows "files (snd (handleServeFile w r st)) = files st \<and>
         set (ops (snd (handleServeFile w r st))) \<subseteq> set (ops st) \<union> {OpStat p, OpServe p}"
  using assms
  by (auto simp add: handleServeFile_def os_Stat_def log_op_def Let_def split: option.splits)

lemma delete_touches_child:
  assumes "Method r = ''DELETE''"
      and "TrimPrefix (URL_Path r) ''/delete/'' = filename"
      and "\<not> invalid_filename filename"
      and "filepath_Join w UploadDir filename = p"
  shows "(\<forall>q. q \<noteq> p \<longrightarrow> files (snd (handleDelete w r st)) q = files st q) \<and>
         set (ops (snd (handleDelete w r st))) \<subseteq> set (ops st) \<union> {OpStat p, OpRemove p}"
  using assms
  by (auto simp add: handleDelete_def os_Stat_def os_Remove_def log_op_def Let_def
      split: option.splits)

text \<open>
  Claim C9, as stated, fails. The filename \<open>.\<close> is not empty and contains neither \<open>..\<close>
  nor \<open>/\<close>, so it passes the check; joined to the upload directory it is the upload
  directory itself. A DELETE of it stats and removes that path and a GET of it stats and
  serves it: the request addresses something that is not a file in the upload directory.
\<close>

theorem filename_check_dot_counterexample:
  "\<not> (''.'' = [] \<or> Contains ''.'' ''..'' \<or> Contains ''.'' ''/'') \<and>
   filepath_Join sample_world UploadDir ''.'' = ''uploads'' \<and>
   fst (handleDelete sample_world (plain_request ''DELETE'' ''/delete/.'') upload_dir_state) =
     Deleted ''.'' 0 \<and>
   ops (snd (handleDelete sample_world (plain_request ''DELETE'' ''/delete/.'') upload_dir_state)) =
     [OpStat ''uploads'', OpRemove ''uploads''] \<and>
   files (snd (handleDelete sample_world (plain_request ''DELETE'' ''/delete/.'') upload_dir_state))
     ''uploads'' = None \<and>
   fst (handleServeFile sample_world (plain_request ''GET'' ''/uploads/.'') upload_dir_state) =
     ServedFile ''uploads'' 0 \<and>
   ops (snd (handleServeFile sample_world (plain_request ''GET'' ''/uploads/.'') upload_dir_state)) =
     [OpStat ''uploads'', OpServe ''uploads'']"
  by (simp add: handleDelete_def handleServeFile_def invalid_filename_def plain_request_def
      HasPrefix_def TrimPrefix_def sample_world_def Join_def Clean_def UploadDir_def
      upload_dir_state_def empty_state_def os_Stat_def os_Remove_def log_op_def Let_def)

text \<open>
  Claim C9, amended. A GET on \<open>/uploads/\<close> or \<open>/get/\<close>, or a DELETE, whose extracted
  filename is empty or contains \<open>..\<close> or \<open>/\<close>, is answered with the error
  \<open>Invalid filename\<close> and status 400, and the state is returned as it was: no file is
  changed and no system call (stat, serve, remove) is logged. A filename that passes the
  check and is not \<open>.\<close> is joined to the upload directory as its direct child
  \<open>uploads/filename\<close>, and where paths are joined by \<open>Join\<close> the handler stats, serves and
  removes at that path only and leaves every other file as it was.
\<close>

theorem filename_check_and_containment:
  "((filename = [] \<or> Contains filename ''..'' \<or> Contains filename ''/'') \<longrightarrow>
      (Method r = ''GET'' \<and> HasPrefix (URL_Path r) ''/uploads/'' \<and>
       TrimPrefix (URL_Path r) ''/uploads/'' = filename \<longrightarrow>
         handleServeFile w r st =
           (ErrorResponse ''Invalid filename'' 400 ''Filename contains invalid characters'', st)) \<and>
      (Method r = ''GET'' \<and> \<not> HasPrefix (URL_Path r) ''/uploads/'' \<and>
       HasPrefix (URL_Path r) ''/get/'' \<and> TrimPrefix (URL_Path r) ''/get/'' = filename \<longrightarrow>
         handleServeFile w r st =
           (ErrorResponse ''Invalid filename'' 400 ''Filename contains invalid characters'', st)) \<and>
      (Method r = ''DELETE'' \<and> TrimPrefix (URL_Path r) ''/delete/'' = filename \<longrightarrow>
         handleDelete w r st =
           (ErrorResponse ''Invalid filename'' 400 ''Filename contains invalid characters'', st))) \<and>
   (filename \<noteq> [] \<and> \<not> Contains filename ''..'' \<and> \<not> Contains filename ''/'' \<and>
    filename \<noteq> ''.'' \<and> filepath_Join w = Join \<longrightarrow>
      Join UploadDir filename = ''uploads/'' @ filename \<and>
      (Method r = ''GET'' \<and>
       (HasPrefix (URL_Path r) ''/uploads/'' \<and> TrimPrefix (URL_Path r) ''/uploads/'' = filename \<or>
        \<not> HasPrefix (URL_Path r) ''/uploads/'' \<and> HasPrefix (URL_Path r) ''/get/'' \<and>
        TrimPrefix (URL_Path r) ''/get/'' = filename) \<longrightarrow>
         files (snd (handleServeFile w r st)) = files st \<and>
         set (ops (snd (handleServeFile w r st))) \<subseteq>
           set (ops st) \<union> {OpStat (''uploads/'' @ filename), OpServe (''uploads/'' @ filename)}) \<and>
      (Method r = ''DELETE'' \<and> TrimPrefix (URL_Path r) ''/delete/'' = filename \<longrightarrow>
         (\<forall>q. q \<noteq> ''uploads/'' @ filename \<longrightarrow>
              files (snd (handleDelete w r st)) q = files st q) \<and>
         set (ops (snd (handleDelete w r st))) \<subseteq>
           set (ops st) \<union>
             {OpStat (''uploads/'' @ filename), OpRemove (''uploads/'' @ filename)}))"
proof -
  have a: "handleServeFile w r st =
           (ErrorResponse ''Invalid filename'' 400 ''Filename contains invalid characters'', st)"
    if "filename = [] \<or> Contains filename ''..'' \<or> Contains filename ''/''"
       "Method r = ''GET''"
       "HasPrefix (URL_Path r) ''/uploads/'' \<and> TrimPrefix (URL_Path r) ''/uploads/'' = filename \<or>
        \<not> HasPrefix (URL_Path r) ''/uploads/'' \<and> HasPrefix (URL_Path r) ''/get/'' \<and>
        TrimPrefix (URL_Path r) ''/get/'' = filename"
    using that by (auto simp add: handleServeFile_def invalid_filename_def)
  have b: "handleDelete w r st =
           (ErrorResponse ''Invalid filename'' 400 ''Filename contains invalid characters'', st)"
    if "filename = [] \<or> Contains filename ''..'' \<or> Contains filename ''/''"
       "Method r = ''DELETE''" "TrimPrefix (URL_Path r) ''/delete/'' = filename"
    using that by (auto simp add: handleDelete_def invalid_filename_def)
  have c: "Join UploadDir filename = ''uploads/'' @ filename"
    if "filename \<noteq> []" "\<not> Contains filename ''..''" "\<not> Contains filename ''/''"
       "filename \<noteq> ''.''"
    using Join_upload_child [OF that] .
  have v: "\<not> invalid_filename filename"
    if "filename \<noteq> []" "\<not> Contains filename ''..''" "\<not> Contains filename ''/''"
    using that by (simp add: invalid_filename_def)
  have d: "files (snd (handleServeFile w r st)) = files st \<and>
         set (ops (snd (handleServeFile w r st))) \<subseteq>
           set (ops st) \<union> {OpStat (''uploads/'' @ filename), OpServe (''uploads/'' @ filename)}"
    if "filename \<noteq> []" "\<not> Contains filename ''..''" "\<not> Contains filename ''/''"
       "filename \<noteq> ''.''" "filepath_Join w = Join" "Method r = ''GET''"
       "HasPrefix (URL_Path r) ''/uploads/'' \<and> TrimPrefix (URL_Path r) ''/uploads/'' = filename \<or>
        \<not> HasPrefix (URL_Path r) ''/uploads/'' \<and> HasPrefix (URL_Path r) ''/get/'' \<and>
        TrimPrefix (URL_Path r) ''/get/'' = filename"
    using serve_touches_child [OF that(6,7) v [OF that(1-3)], of w "''uploads/'' @ filename" st]
          c [OF that(1-4)] that(5) by simp
  have e: "(\<forall>q. q \<noteq> ''uploads/'' @ filename \<longrightarrow>
              files (snd (handleDelete w r st)) q = files st q) \<and>
         set (ops (snd (handleDelete w r st))) \<subseteq>
           set (ops st) \<union> {OpStat (''uploads/'' @ filename), OpRemove (''uploads/'' @ filename)}"
    if "filename \<noteq> []" "\<not> Contains filename ''..''" "\<not> Contains filename ''/''"
       "filename \<noteq> ''.''" "filepath_Join w = Join" "Method r = ''DELETE''"
       "TrimPrefix (URL_Path r) ''/delete/'' = filename"
    using delete_touches_child [OF that(6,7) v [OF that(1-3)], of w "''uploads/'' @ filename" st]
          c [OF that(1-4)] that(5) by simp
  show ?thesis using a b c d e by blast
qed

theorem filename_check_and_containment_witness:
  "Contains ''..secret'' ''..'' \<and> Contains ''a/b'' ''/'' \<and>
   handleServeFile sample_world (plain_request ''GET'' ''/uploads/..secret'') empty_state =
     (ErrorResponse ''Invalid filename'' 400 ''Filename contains invalid characters'', empty_state) \<and>
   handleServeFile sample_world (plain_request ''GET'' ''/get/a/b'') empty_state =
     (ErrorResponse ''Invalid filename'' 400 ''Filename contains invalid characters'', empty_state) \<and>
   handleDelete sample_world (plain_request ''DELETE'' ''/delete/'') empty_state =
     (ErrorResponse ''Invalid filename'' 400 ''Filename contains invalid characters'', empty_state) \<and>
   ''a.txt'' \<noteq> [] \<and> \<not> Contains ''a.txt'' ''..'' \<and> \<not> Contains ''a.txt'' ''/'' \<and>
   ''a.txt'' \<noteq> ''.'' \<and> filepath_Join sample_world = Join \<and>
   Join UploadDir ''a.txt'' = ''uploads/a.txt'' \<and>
   TrimPrefix (URL_Path (plain_request ''GET'' ''/uploads/a.txt'')) ''/uploads/'' = ''a.txt'' \<and>
   TrimPrefix (URL_Path (plain_request ''DELETE'' ''/delete/a.txt'')) ''/delete/'' = ''a.txt'' \<and>
   fst (handleServeFile sample_world (plain_request ''GET'' ''/uploads/a.txt'') stored_state) =
     ServedFile ''uploads/a.txt'' 2 \<and>
   files (snd (handleServeFile sample_world (plain_request ''GET'' ''/uploads/a.txt'') stored_state)) =
     files stored_state \<and>
   ops (snd (handleServeFile sample_world (plain_request ''GET'' ''/uploads/a.txt'')
               stored_state)) =
     [OpStat ''uploads/a.txt'', OpServe ''uploads/a.txt''] \<and>
   fst (handleDelete sample_world (plain_request ''DELETE'' ''/delete/a.txt'') stored_state) =
     Deleted ''a.txt'' 2 \<and>
   files (snd (handleDelete sample_world (plain_request ''DELETE'' ''/delete/a.txt'')
                 stored_state)) ''uploads/b.txt'' = files stored_state ''uploads/b.txt'' \<and>
   files (snd (handleDelete sample_world (plain_request ''DELETE'' ''/delete/a.txt'')
                 stored_state)) ''uploads/a.txt'' = None \<and>
   ops (snd (handleDelete sample_world (plain_request ''DELETE'' ''/delete/a.txt'')
               stored_state)) =
     [OpStat ''uploads/a.txt'', OpRemove ''uploads/a.txt'']"
proof -
  have j: "filepath_Join sample_world = Join" by (simp add: sample_world_def)
  have o: "ops stored_state = []" by (simp add: stored_state_def empty_state_def)
  have s: "fst (handleServeFile sample_world (plain_request ''GET'' ''/uploads/a.txt'')
                  stored_state) = ServedFile ''uploads/a.txt'' 2"
    by (simp add: handleServeFile_def invalid_filename_def plain_request_def HasPrefix_def
        TrimPrefix_def sample_world_def Join_def Clean_def UploadDir_def stored_state_def
        empty_state_def os_Stat_def log_op_def Let_def)
  have so: "ops (snd (handleServeFile sample_world (plain_request ''GET'' ''/uploads/a.txt'')
                        stored_state)) = [OpStat ''uploads/a.txt'', OpServe ''uploads/a.txt'']"
    by (simp add: handleServeFile_def invalid_filename_def plain_request_def HasPrefix_def
        TrimPrefix_def sample_world_def Join_def Clean_def UploadDir_def stored_state_def
        empty_state_def os_Stat_def log_op_def Let_def)
  have dl: "ops (snd (handleDelete sample_world (plain_request ''DELETE'' ''/delete/a.txt'')
                        stored_state)) = [OpStat ''uploads/a.txt'', OpRemove ''uploads/a.txt''] \<and>
            files (snd (handleDelete sample_world (plain_request ''DELETE'' ''/delete/a.txt'')
                          stored_state)) ''uploads/a.txt'' = None"
    by (simp add: handleDelete_def invalid_filename_def plain_request_def HasPrefix_def
        TrimPrefix_def sample_world_def Join_def Clean_def UploadDir_def stored_state_def
        empty_state_def os_Stat_def os_Remove_def log_op_def Let_def)
  have d: "fst (handleDelete sample_world (plain_request ''DELETE'' ''/delete/a.txt'')
                  stored_state) = Deleted ''a.txt'' 2"
    by (simp add: handleDelete_def invalid_filename_def plain_request_def HasPrefix_def
        TrimPrefix_def sample_world_def Join_def Clean_def UploadDir_def stored_state_def
        empty_state_def os_Stat_def os_Remove_def log_op_def Let_def)
  show ?thesis
    using filename_check_and_containment
            [of "''..secret''" "plain_request ''GET'' ''/uploads/..secret''" sample_world
                empty_state]
          filename_check_and_containment
            [of "''a/b''" "plain_request ''GET'' ''/get/a/b''" sample_world empty_state]
          filename_check_and_containment
            [of "[]" "plain_request ''DELETE'' ''/delete/''" sample_world empty_state]
          filename_check_and_containment
            [of "''a.txt''" "plain_request ''GET'' ''/uploads/a.txt''" sample_world stored_state]
          filename_check_and_containment
            [of "''a.txt''" "plain_request ''DELETE'' ''/delete/a.txt''" sample_world
                stored_state]
          j o s d so dl
    by (simp add: plain_request_def HasPrefix_def TrimPrefix_def)
qed

section \<open>The size checks of the upload handler\<close>

lemma length_zeros: "length (zeros n) = n"
  by (simp add: zeros_def)

text \<open>
  Claim C5. A POST whose body is longer than the bound on the request, or whose file part
  has a size, as the multipart parser counted it, larger than \<open>MaxFileSize\<close>, is answered
  with \<open>File too large\<close> and status 413, and the state is returned as it was: nothing was
  created or written.
\<close>

theorem oversized_upload_rejected:
  assumes "Method r = ''POST''"
      and "maxRequestSize < body_size r \<or>
           (form_error r = None \<and> form_file r ''file'' = Some (handler, bytes) \<and>
            MaxFileSize < fh_Size handler)"
  shows "\<exists>msg. handleUpload w r st = (ErrorResponse ''File too large'' 413 msg, st)"
proof (cases "maxRequestSize < body_size r")
  case True
  then show ?thesis using assms(1)
    by (simp add: handleUpload_def MaxBytesReader_def ParseMultipartForm_def HasPrefix_def)
next
  case False
  then show ?thesis using assms
    by (simp add: handleUpload_def MaxBytesReader_def ParseMultipartForm_def FormFile_def)
qed

theorem oversized_upload_rejected_witness:
  "Method (post_file ''big.bin'' (zeros 55000000)) = ''POST'' \<and>
   form_file (post_file ''big.bin'' (zeros 55000000)) ''file'' =
     Some (\<lparr>fh_Filename = ''big.bin'', fh_Size = 55000000\<rparr>, zeros 55000000) \<and>
   MaxFileSize < fh_Size \<lparr>fh_Filename = ''big.bin'', fh_Size = 55000000\<rparr> \<and>
   maxRequestSize < body_size (post_file ''huge.png'' (zeros 70000000)) \<and>
   (\<exists>msg. handleUpload sample_world (post_file ''big.bin'' (zeros 55000000)) empty_state =
            (ErrorResponse ''File too large'' 413 msg, empty_state)) \<and>
   (\<exists>msg. handleUpload sample_world (post_file ''huge.png'' (zeros 70000000)) empty_state =
            (ErrorResponse ''File too large'' 413 msg, empty_state))"
  using oversized_upload_rejected
          [of "post_file ''big.bin'' (zeros 55000000)"
              "\<lparr>fh_Filename = ''big.bin'', fh_Size = 55000000\<rparr>" "zeros 55000000"
              sample_world empty_state]
        oversized_upload_rejected
          [of "post_file ''huge.png'' (zeros 70000000)"
              "\<lparr>fh_Filename = ''huge.png'', fh_Size = 70000000\<rparr>" "zeros 70000000"
              sample_world empty_state]
  by (simp add: post_file_def length_zeros MaxFileSize_def maxRequestSize_def)

text \<open>
  Claim C8, as stated, fails. The bound on the request body is \<open>MaxFileSize\<close> plus ten
  megabytes, not \<open>MaxFileSize\<close>; and two requests that exceed it by different amounts get
  the same message, which names the file limit and holds neither request's size.
\<close>

theorem size_checks_same_ceiling_counterexample:
  "maxRequestSize \<noteq> MaxFileSize \<and>
   handleUpload sample_world (post_file ''huge.png'' (zeros 70000000)) empty_state =
     (ErrorResponse ''File too large'' 413 ''Request size exceeds limit. Max file size: 50 MB'',
      empty_state) \<and>
   handleUpload sample_world (post_file ''huge.png'' (zeros 90000000)) empty_state =
     (ErrorResponse ''File too large'' 413 ''Request size exceeds limit. Max file size: 50 MB'',
      empty_state) \<and>
   body_size (post_file ''huge.png'' (zeros 70000000)) = 70000200 \<and>
   \<not> Contains ''Request size exceeds limit. Max file size: 50 MB'' (itoa 70000200) \<and>
   \<not> Contains ''Request size exceeds limit. Max file size: 50 MB'' (itoa 70000000)"
  by (simp add: handleUpload_def MaxBytesReader_def ParseMultipartForm_def HasPrefix_def
      post_file_def length_zeros MaxFileSize_def maxRequestSize_def itoa_def digits_of.simps
      digit_char_def)

text \<open>
  Claim C8, amended. The bound on the request body is \<open>MaxFileSize\<close> plus ten megabytes
  and the bound on the file is \<open>MaxFileSize\<close>. A body over its bound is refused with status
  413 and a fixed message that names the file limit of 50 MB only. A file over its bound
  is refused with status 413 and a message that holds its size in bytes, its size in
  megabytes and the limit of 50 MB. In both cases the state is unchanged.
\<close>

theorem size_checks_report:
  "maxRequestSize = MaxFileSize + 10485760 \<and>
   (Method r = ''POST'' \<and> maxRequestSize < body_size r \<longrightarrow>
      handleUpload w r st =
        (ErrorResponse ''File too large'' 413 ''Request size exceeds limit. Max file size: 50 MB'',
         st)) \<and>
   (Method r = ''POST'' \<and> body_size r \<le> maxRequestSize \<and> form_error r = None \<and>
    form_file r ''file'' = Some (handler, bytes) \<and> MaxFileSize < fh_Size handler \<longrightarrow>
      handleUpload w r st =
        (ErrorResponse ''File too large'' 413
           (''File size ('' @ itoa (fh_Size handler) @ '' bytes = '' @
            Sprintf_2f w (fh_Size handler) @ '' MB) exceeds 50 MB limit''), st))"
  by (simp add: handleUpload_def MaxBytesReader_def ParseMultipartForm_def HasPrefix_def
      FormFile_def MaxFileSize_def maxRequestSize_def itoa_def digits_of.simps digit_char_def)

theorem size_checks_report_witness:
  "Method (post_file ''huge.png'' (zeros 70000000)) = ''POST'' \<and>
   maxRequestSize < body_size (post_file ''huge.png'' (zeros 70000000)) \<and>
   body_size (post_file ''big.bin'' (zeros 55000000)) \<le> maxRequestSize \<and>
   form_error (post_file ''big.bin'' (zeros 55000000)) = None \<and>
   form_file (post_file ''big.bin'' (zeros 55000000)) ''file'' =
     Some (\<lparr>fh_Filename = ''big.bin'', fh_Size = 55000000\<rparr>, zeros 55000000) \<and>
   MaxFileSize < fh_Size \<lparr>fh_Filename = ''big.bin'', fh_Size = 55000000\<rparr> \<and>
   handleUpload sample_world (post_file ''huge.png'' (zeros 70000000)) empty_state =
     (ErrorResponse ''File too large'' 413 ''Request size exceeds limit. Max file size: 50 MB'',
      empty_state) \<and>
   handleUpload sample_world (post_file ''big.bin'' (zeros 55000000)) empty_state =
     (ErrorResponse ''File too large'' 413
        ''File size (55000000 bytes = 52.45 MB) exceeds 50 MB limit'', empty_state)"
  using size_checks_report
          [of "post_file ''big.bin'' (zeros 55000000)" sample_world empty_state
              "\<lparr>fh_Filename = ''big.bin'', fh_Size = 55000000\<rparr>" "zeros 55000000"]
        size_checks_report
          [of "post_file ''huge.png'' (zeros 70000000)" sample_world empty_state]
  by (simp add: post_file_def length_zeros MaxFileSize_def maxRequestSize_def sample_world_def
      mib_2f_def itoa_def digits_of.simps digit_char_def)

section \<open>The writers\<close>

lemma handleUpload_accepted:
  assumes "upload_accepted r handler bytes"
      and "storeUpload w (multipart_File bytes) handler st = (filename, converted, finalSize, st1)"
  shows "handleUpload w r st =
           (if finalSize = 0 then (ErrorResponse ''Save failed'' 500 ''Could not save file'', st1)
            else (Created \<lparr>URL = BaseURL @ ''/uploads/'' @ filename,
                           Filename = filename,
                           OriginalExt = ToLower w (Ext w (fh_Filename handler)),
                           Size = finalSize,
                           Converted = converted,
                           Message = ''File uploaded successfully''\<rparr>,
                  st1\<lparr>stats := (stats st1)\<lparr>Uploads := Uploads (stats st1) + 1\<rparr>\<rparr>))"
  using assms
  by (simp add: upload_accepted_def handleUpload_def MaxBytesReader_def ParseMultipartForm_def
      FormFile_def)

lemma save_create_fails:
  "os_Create_fails w p \<Longrightarrow> saveOriginalFile w src p st = (0, log_op (OpCreate p) st)"
  by (simp add: saveOriginalFile_def os_Create_def)

lemma save_copy_fault:
  assumes "\<not> os_Create_fails w p" and "io_Copy_fault w = Some n"
  shows "fst (saveOriginalFile w src p st) = 0"
    and "ops (snd (saveOriginalFile w src p st)) = ops st @ [OpCreate p, OpWrite p, OpRemove p]"
    and "\<not> os_Remove_fails w p \<Longrightarrow> files (snd (saveOriginalFile w src p st)) p = None"
    and "os_Remove_fails w p \<Longrightarrow>
           files (snd (saveOriginalFile w src p st)) p = Some (take n (remaining (rewind src)))"
  using assms
  by (simp_all add: saveOriginalFile_def os_Create_def io_Copy_def file_Write_def os_Remove_def
      log_op_def Let_def)

lemma save_ok:
  assumes "\<not> os_Create_fails w p" and "io_Copy_fault w = None"
  shows "saveOriginalFile w src p st =
           (int (length (remaining (rewind src))),
            st\<lparr>files := (files st)(p \<mapsto> remaining (rewind src)),
               ops := ops st @ [OpCreate p, OpWrite p]\<rparr>)"
  using assms
  by (simp add: saveOriginalFile_def os_Create_def io_Copy_def file_Write_def log_op_def Let_def)

lemma remaining_rewind_seekable:
  "seekable src \<Longrightarrow> remaining (rewind src) = content src"
  by (simp add: remaining_def rewind_def)

text \<open>The conversion moves the read position only: the bytes of the stream stay.\<close>

lemma convertToWebP_reader:
  "content (fst (snd (convertToWebP w src p ext st))) = content src \<and>
   seekable (fst (snd (convertToWebP w src p ext st))) = seekable src"
  by (simp add: convertToWebP_def rewind_def advance_def Let_def
      split: option.splits prod.splits bool.splits)

text \<open>
  The two ways the storing part ends: with the converted file, or with the verbatim writer
  run on a stream that holds the uploaded bytes.
\<close>

lemma storeUpload_cases:
  assumes "storeUpload w (multipart_File bytes) handler st = (filename, converted, finalSize, st1)"
  shows "(converted \<and> filename = uuid_New w @ ''.webp'' \<and>
          isImageFile (ToLower w (Ext w (fh_Filename handler))) \<and>
          (\<exists>src'. convertToWebP w (multipart_File bytes)
                    (filepath_Join w UploadDir (uuid_New w @ ''.webp''))
                    (ToLower w (Ext w (fh_Filename handler))) st = (Inr finalSize, src', st1))) \<or>
         (\<not> converted \<and> filename = uuid_New w @ ToLower w (Ext w (fh_Filename handler)) \<and>
          (\<exists>src' st'. content src' = bytes \<and> seekable src' \<and>
             saveOriginalFile w src' (filepath_Join w UploadDir filename) st' = (finalSize, st1)))"
proof (cases "isImageFile (ToLower w (Ext w (fh_Filename handler)))")
  case False
  then have "saveOriginalFile w (multipart_File bytes) (filepath_Join w UploadDir filename) st =
               (finalSize, st1)"
    and "\<not> converted" and "filename = uuid_New w @ ToLower w (Ext w (fh_Filename handler))"
    using assms by (auto simp add: storeUpload_def Let_def split: prod.splits)
  then show ?thesis
    by (auto simp add: multipart_File_def intro!: exI[of _ "multipart_File bytes"])
next
  case True
  obtain res src' st' where c:
    "convertToWebP w (multipart_File bytes) (filepath_Join w UploadDir (uuid_New w @ ''.webp''))
       (ToLower w (Ext w (fh_Filename handler))) st = (res, src', st')"
    by (metis prod_cases3)
  have rd: "content src' = bytes \<and> seekable src'"
    using convertToWebP_reader [of w "multipart_File bytes"
        "filepath_Join w UploadDir (uuid_New w @ ''.webp'')"
        "ToLower w (Ext w (fh_Filename handler))" st] c
    by (simp add: multipart_File_def)
  show ?thesis
  proof (cases res)
    case (Inl e)
    then show ?thesis using assms True c rd
      by (auto simp add: storeUpload_def Let_def ConvertToWebP_def split: prod.splits)
  next
    case (Inr sz)
    then show ?thesis using assms True c
      by (auto simp add: storeUpload_def Let_def ConvertToWebP_def split: prod.splits)
  qed
qed


section \<open>A final size of zero fails the upload\<close>

text \<open>
  Claim C2. For an upload that has passed the checks, if the writer that was finally used
  reports zero bytes, or if it is the verbatim writer and creating the file or copying
  into it fails, the handler answers \<open>Save failed\<close> with status 500 and sends no
  description of a stored object. The witness is an empty text file: its zero-byte file
  stays in the upload directory and the answer is the error.
\<close>

theorem zero_size_is_save_failed:
  assumes "upload_accepted r handler bytes"
      and "storeUpload w (multipart_File bytes) handler st = (filename, converted, finalSize, st1)"
  shows "finalSize = 0 \<or>
         (\<not> converted \<and> (os_Create_fails w (filepath_Join w UploadDir filename) \<or>
                           io_Copy_fault w \<noteq> None)) \<longrightarrow>
           handleUpload w r st = (ErrorResponse ''Save failed'' 500 ''Could not save file'', st1)"
proof -
  have z: "finalSize = 0"
    if nc: "\<not> converted"
      and se: "os_Create_fails w (filepath_Join w UploadDir filename) \<or> io_Copy_fault w \<noteq> None"
  proof -
    from storeUpload_cases [OF assms(2)] nc
    obtain src' st0 where
      s: "saveOriginalFile w src' (filepath_Join w UploadDir filename) st0 = (finalSize, st1)"
      by auto
    show ?thesis
    proof (cases "os_Create_fails w (filepath_Join w UploadDir filename)")
      case True
      then show ?thesis
        using s save_create_fails [of w "filepath_Join w UploadDir filename" src' st0] by simp
    next
      case False
      then obtain n where "io_Copy_fault w = Some n" using se by auto
      then show ?thesis
        using s False save_copy_fault(1) [of w "filepath_Join w UploadDir filename" n src' st0]
        by simp
    qed
  qed
  show ?thesis using z handleUpload_accepted [OF assms] by auto
qed

theorem zero_size_is_save_failed_witness:
  "upload_accepted (post_file ''notes.txt'' []) \<lparr>fh_Filename = ''notes.txt'', fh_Size = 0\<rparr> [] \<and>
   storeUpload sample_world (multipart_File []) \<lparr>fh_Filename = ''notes.txt'', fh_Size = 0\<rparr>
       empty_state =
     (''3f2b8c1e-77aa-4d0c-9e51-0b6d2f4a9c10.txt'', False, 0,
      empty_state
        \<lparr>files := (files empty_state)(''uploads/3f2b8c1e-77aa-4d0c-9e51-0b6d2f4a9c10.txt'' \<mapsto> []),
         ops := [OpCreate ''uploads/3f2b8c1e-77aa-4d0c-9e51-0b6d2f4a9c10.txt'',
                 OpWrite ''uploads/3f2b8c1e-77aa-4d0c-9e51-0b6d2f4a9c10.txt'']\<rparr>) \<and>
   handleUpload sample_world (post_file ''notes.txt'' []) empty_state =
     (ErrorResponse ''Save failed'' 500 ''Could not save file'',
      empty_state
        \<lparr>files := (files empty_state)(''uploads/3f2b8c1e-77aa-4d0c-9e51-0b6d2f4a9c10.txt'' \<mapsto> []),
         ops := [OpCreate ''uploads/3f2b8c1e-77aa-4d0c-9e51-0b6d2f4a9c10.txt'',
                 OpWrite ''uploads/3f2b8c1e-77aa-4d0c-9e51-0b6d2f4a9c10.txt'']\<rparr>) \<and>
   upload_accepted (post_file ''notes.txt'' [0x68, 0x69])
     \<lparr>fh_Filename = ''notes.txt'', fh_Size = 2\<rparr> [0x68, 0x69] \<and>
   os_Create_fails readonly_world
     (filepath_Join readonly_world UploadDir ''3f2b8c1e-77aa-4d0c-9e51-0b6d2f4a9c10.txt'') \<and>
   handleUpload readonly_world (post_file ''notes.txt'' [0x68, 0x69]) empty_state =
     (ErrorResponse ''Save failed'' 500 ''Could not save file'',
      empty_state\<lparr>ops := [OpCreate ''uploads/3f2b8c1e-77aa-4d0c-9e51-0b6d2f4a9c10.txt'']\<rparr>)"
proof -
  have a: "upload_accepted (post_file ''notes.txt'' [])
             \<lparr>fh_Filename = ''notes.txt'', fh_Size = 0\<rparr> []"
    by (simp add: upload_accepted_def post_file_def maxRequestSize_def MaxFileSize_def)
  have s: "storeUpload sample_world (multipart_File []) \<lparr>fh_Filename = ''notes.txt'', fh_Size = 0\<rparr>
             empty_state =
     (''3f2b8c1e-77aa-4d0c-9e51-0b6d2f4a9c10.txt'', False, 0,
      empty_state
        \<lparr>files := (files empty_state)(''uploads/3f2b8c1e-77aa-4d0c-9e51-0b6d2f4a9c10.txt'' \<mapsto> []),
         ops := [OpCreate ''uploads/3f2b8c1e-77aa-4d0c-9e51-0b6d2f4a9c10.txt'',
                 OpWrite ''uploads/3f2b8c1e-77aa-4d0c-9e51-0b6d2f4a9c10.txt'']\<rparr>)"
    by (simp add: storeUpload_def sample_world_def Ext_def ToLower_def isASCII_def lower_byte_def
        isImageFile_def saveOriginalFile_def os_Create_def io_Copy_def file_Write_def log_op_def
        rewind_def remaining_def multipart_File_def UploadDir_def HasPrefix_def Join_def Clean_def empty_state_def
        Let_def)
  have a2: "upload_accepted (post_file ''notes.txt'' [0x68, 0x69])
              \<lparr>fh_Filename = ''notes.txt'', fh_Size = 2\<rparr> [0x68, 0x69]"
    by (simp add: upload_accepted_def post_file_def maxRequestSize_def MaxFileSize_def)
  have s2: "storeUpload readonly_world (multipart_File [0x68, 0x69])
              \<lparr>fh_Filename = ''notes.txt'', fh_Size = 2\<rparr> empty_state =
     (''3f2b8c1e-77aa-4d0c-9e51-0b6d2f4a9c10.txt'', False, 0,
      empty_state\<lparr>ops := [OpCreate ''uploads/3f2b8c1e-77aa-4d0c-9e51-0b6d2f4a9c10.txt'']\<rparr>)"
    by (simp add: storeUpload_def readonly_world_def sample_world_def Ext_def ToLower_def
        isASCII_def lower_byte_def isImageFile_def saveOriginalFile_def os_Create_def log_op_def
        rewind_def multipart_File_def UploadDir_def HasPrefix_def Join_def Clean_def empty_state_def Let_def)
  have c2: "os_Create_fails readonly_world
              (filepath_Join readonly_world UploadDir ''3f2b8c1e-77aa-4d0c-9e51-0b6d2f4a9c10.txt'')"
    by (simp add: readonly_world_def)
  show ?thesis
    using zero_size_is_save_failed [OF a s] zero_size_is_save_failed [OF a2 s2] a s a2 c2
    by simp
qed

section \<open>Opaque uploads\<close>

lemma store_opaque:
  assumes "\<not> isImageFile (ToLower w (Ext w (fh_Filename handler)))"
      and "\<not> os_Create_fails w
             (filepath_Join w UploadDir (uuid_New w @ ToLower w (Ext w (fh_Filename handler))))"
      and "io_Copy_fault w = None"
  shows "storeUpload w (multipart_File bytes) handler st =
           (uuid_New w @ ToLower w (Ext w (fh_Filename handler)), False, int (length bytes),
            st\<lparr>files := (files st)
                   (filepath_Join w UploadDir
                      (uuid_New w @ ToLower w (Ext w (fh_Filename handler))) \<mapsto> bytes),
               ops := ops st @
                 [OpCreate (filepath_Join w UploadDir
                              (uuid_New w @ ToLower w (Ext w (fh_Filename handler)))),
                  OpWrite (filepath_Join w UploadDir
                             (uuid_New w @ ToLower w (Ext w (fh_Filename handler))))]\<rparr>)"
  using assms
  by (simp add: storeUpload_def Let_def save_ok remaining_rewind_seekable multipart_File_def)

text \<open>
  Claim C4, as stated, fails: an empty file with an extension that is not an image's is
  written and then refused with status 500, because its final size is zero.
\<close>

theorem opaque_upload_empty_counterexample:
  "\<not> isImageFile (ToLower sample_world (Ext sample_world ''report.pdf'')) \<and>
   fst (handleUpload sample_world (post_file ''report.pdf'' []) empty_state) =
     ErrorResponse ''Save failed'' 500 ''Could not save file''"
  by (simp add: handleUpload_def MaxBytesReader_def ParseMultipartForm_def FormFile_def
      post_file_def maxRequestSize_def MaxFileSize_def storeUpload_def sample_world_def Ext_def
      ToLower_def isASCII_def lower_byte_def isImageFile_def saveOriginalFile_def os_Create_def
      io_Copy_def file_Write_def log_op_def rewind_def remaining_def multipart_File_def
      UploadDir_def HasPrefix_def Join_def Clean_def empty_state_def Let_def)

text \<open>
  Claim C4, amended. For an upload that has passed the checks, whose lower-cased extension
  is not an image's and whose content is not empty, if creating the destination and
  copying into it succeed, the handler answers with status 201, a converted flag that is
  false and the size of the input, and the file at the identifier followed by the
  lower-cased extension holds exactly the bytes of the input.
\<close>

theorem opaque_upload_roundtrip:
  assumes "upload_accepted r handler bytes"
      and "\<not> isImageFile (ToLower w (Ext w (fh_Filename handler)))"
      and "bytes \<noteq> []"
      and "\<not> os_Create_fails w
             (filepath_Join w UploadDir (uuid_New w @ ToLower w (Ext w (fh_Filename handler))))"
      and "io_Copy_fault w = None"
  shows "\<exists>st'. handleUpload w r st =
           (Created \<lparr>URL = BaseURL @ ''/uploads/'' @ uuid_New w @
                             ToLower w (Ext w (fh_Filename handler)),
                     Filename = uuid_New w @ ToLower w (Ext w (fh_Filename handler)),
                     OriginalExt = ToLower w (Ext w (fh_Filename handler)),
                     Size = int (length bytes),
                     Converted = False,
                     Message = ''File uploaded successfully''\<rparr>, st') \<and>
           files st' (filepath_Join w UploadDir
                        (uuid_New w @ ToLower w (Ext w (fh_Filename handler)))) = Some bytes"
  using handleUpload_accepted [OF assms(1) store_opaque [OF assms(2,4,5)]] assms(3)
  by simp

theorem opaque_upload_roundtrip_witness:
  "upload_accepted (post_file ''Notes.TXT'' [0x68, 0x69, 0x0A])
     \<lparr>fh_Filename = ''Notes.TXT'', fh_Size = 3\<rparr> [0x68, 0x69, 0x0A] \<and>
   \<not> isImageFile (ToLower sample_world (Ext sample_world ''Notes.TXT'')) \<and>
   io_Copy_fault sample_world = None \<and>
   (\<exists>st'. handleUpload sample_world (post_file ''Notes.TXT'' [0x68, 0x69, 0x0A]) empty_state =
           (Created \<lparr>URL = ''http://localhost:4000/uploads/3f2b8c1e-77aa-4d0c-9e51-0b6d2f4a9c10.txt'',
                     Filename = ''3f2b8c1e-77aa-4d0c-9e51-0b6d2f4a9c10.txt'',
                     OriginalExt = ''.txt'',
                     Size = 3,
                     Converted = False,
                     Message = ''File uploaded successfully''\<rparr>, st') \<and>
           files st' ''uploads/3f2b8c1e-77aa-4d0c-9e51-0b6d2f4a9c10.txt'' =
             Some [0x68, 0x69, 0x0A])"
proof -
  have a: "upload_accepted (post_file ''Notes.TXT'' [0x68, 0x69, 0x0A])
             \<lparr>fh_Filename = ''Notes.TXT'', fh_Size = 3\<rparr> [0x68, 0x69, 0x0A]"
    by (simp add: upload_accepted_def post_file_def maxRequestSize_def MaxFileSize_def)
  have e: "ToLower sample_world (Ext sample_world ''Notes.TXT'') = ''.txt''"
    by (simp add: sample_world_def Ext_def ToLower_def isASCII_def lower_byte_def)
  have n: "\<not> isImageFile (ToLower sample_world (Ext sample_world
             (fh_Filename \<lparr>fh_Filename = ''Notes.TXT'', fh_Size = 3\<rparr>)))"
    using e by (simp add: isImageFile_def)
  have j: "filepath_Join sample_world UploadDir (uuid_New sample_world @ ''.txt'') =
             ''uploads/3f2b8c1e-77aa-4d0c-9e51-0b6d2f4a9c10.txt''"
     and u: "uuid_New sample_world = ''3f2b8c1e-77aa-4d0c-9e51-0b6d2f4a9c10''"
    by (simp_all add: sample_world_def UploadDir_def HasPrefix_def Join_def Clean_def)
  have c: "\<not> os_Create_fails sample_world p" for p by (simp add: sample_world_def)
  have f: "io_Copy_fault sample_world = None" by (simp add: sample_world_def)
  show ?thesis
    using opaque_upload_roundtrip [OF a n _ c f, of empty_state] a n e j u f
    by (simp add: BaseURL_def Port_def)
qed

section \<open>The converted flag and the stored name\<close>

lemmas upload_defs =
  handleUpload_def MaxBytesReader_def ParseMultipartForm_def FormFile_def post_file_def
  maxRequestSize_def MaxFileSize_def storeUpload_def sample_world_def Ext_def ToLower_def
  isASCII_def lower_byte_def isImageFile_def convertToWebP_def decoder_for_def
  signature_decoder_def os_Create_def os_Remove_def File_Stat_def advance_def WebPQuality_def
  ConvertToWebP_def saveOriginalFile_def io_Copy_def file_Write_def log_op_def rewind_def
  remaining_def multipart_File_def UploadDir_def HasPrefix_def Join_def Clean_def empty_state_def Let_def
  BaseURL_def Port_def readonly_world_def broken_copy_world_def broken_encoder_world_def
  tiny_png_def







section \<open>The fallback after a failed conversion\<close>

lemma save_empty: "content src = [] \<Longrightarrow> fst (saveOriginalFile w src p st) = 0"
  by (simp add: saveOriginalFile_def os_Create_def io_Copy_def remaining_def rewind_def Let_def
      split: option.splits)

lemma store_fallback:
  assumes "isImageFile (ToLower w (Ext w (fh_Filename handler)))"
      and "convertToWebP w (multipart_File bytes)
             (filepath_Join w UploadDir (uuid_New w @ ''.webp''))
             (ToLower w (Ext w (fh_Filename handler))) st = (Inl err, src', st1)"
  shows "storeUpload w (multipart_File bytes) handler st =
           (uuid_New w @ ToLower w (Ext w (fh_Filename handler)), False,
            saveOriginalFile w src'
              (filepath_Join w UploadDir (uuid_New w @ ToLower w (Ext w (fh_Filename handler))))
              st1)"
  using assms
  by (simp add: storeUpload_def Let_def ConvertToWebP_def split: prod.splits)

lemma convert_decode_fails:
  assumes "decoder_for w ext = Some dec" and "fst (dec (remaining (rewind src))) = None"
  shows "\<exists>src'. convertToWebP w src p ext st = (Inl DecodeFailed, src', st)"
  using assms by (auto simp add: convertToWebP_def Let_def split: prod.splits)

text \<open>
  Claim C1, as stated, fails, in two ways. An empty \<open>.gif\<close> does not decode, the fallback
  writes its zero bytes, and the handler answers with status 500. And where no file can be
  created, a PNG that decodes fails in the conversion with a create error, the fallback
  cannot create its file either, and the handler answers with status 500.
\<close>

theorem conversion_fallback_counterexample:
  "isImageFile (ToLower sample_world (Ext sample_world ''anim.gif'')) \<and>
   fst (convertToWebP sample_world (multipart_File [])
          (filepath_Join sample_world UploadDir (uuid_New sample_world @ ''.webp'')) ''.gif''
          empty_state) = Inl DecodeFailed \<and>
   fst (handleUpload sample_world (post_file ''anim.gif'' []) empty_state) =
     ErrorResponse ''Save failed'' 500 ''Could not save file'' \<and>
   isImageFile (ToLower readonly_world (Ext readonly_world ''photo.png'')) \<and>
   fst (convertToWebP readonly_world (multipart_File tiny_png)
          (filepath_Join readonly_world UploadDir (uuid_New readonly_world @ ''.webp'')) ''.png''
          empty_state) = Inl CreateFailed \<and>
   fst (handleUpload readonly_world (post_file ''photo.png'' tiny_png)
          empty_state) =
     ErrorResponse ''Save failed'' 500 ''Could not save file''"
  by (simp add: upload_defs)

text \<open>
  Claim C1, amended. For an upload that has passed the checks, whose lower-cased extension
  is an image's and whose conversion fails for whatever reason, if the content is not
  empty and creating the fallback file and copying into it succeed, the handler answers
  with status 201: the stored name is the identifier followed by the lower-cased
  extension, the converted flag is false, the size is that of the input, no error is
  reported, and the stored file holds all the bytes of the input, whatever the decoder had
  read of them.
\<close>

theorem failed_conversion_falls_back:
  assumes "upload_accepted r handler bytes"
      and "ext = ToLower w (Ext w (fh_Filename handler))"
      and "isImageFile ext"
      and "fst (convertToWebP w (multipart_File bytes)
                  (filepath_Join w UploadDir (uuid_New w @ ''.webp'')) ext st) = Inl err"
      and "bytes \<noteq> []"
      and "\<not> os_Create_fails w (filepath_Join w UploadDir (uuid_New w @ ext))"
      and "io_Copy_fault w = None"
  shows "\<exists>st'. handleUpload w r st =
           (Created \<lparr>URL = BaseURL @ ''/uploads/'' @ uuid_New w @ ext,
                     Filename = uuid_New w @ ext,
                     OriginalExt = ext,
                     Size = int (length bytes),
                     Converted = False,
                     Message = ''File uploaded successfully''\<rparr>, st') \<and>
           files st' (filepath_Join w UploadDir (uuid_New w @ ext)) = Some bytes"
proof -
  obtain src' st1 where c:
    "convertToWebP w (multipart_File bytes) (filepath_Join w UploadDir (uuid_New w @ ''.webp''))
       ext st = (Inl err, src', st1)"
    using assms(4) by (metis fst_conv prod_cases3)
  have rd: "content src' = bytes \<and> seekable src'"
    using convertToWebP_reader [of w "multipart_File bytes"
        "filepath_Join w UploadDir (uuid_New w @ ''.webp'')" ext st] c
    by (simp add: multipart_File_def)
  have sv: "saveOriginalFile w src' (filepath_Join w UploadDir (uuid_New w @ ext)) st1 =
          (int (length bytes),
           st1\<lparr>files := (files st1)(filepath_Join w UploadDir (uuid_New w @ ext) \<mapsto> bytes),
               ops := ops st1 @ [OpCreate (filepath_Join w UploadDir (uuid_New w @ ext)),
                                 OpWrite (filepath_Join w UploadDir (uuid_New w @ ext))]\<rparr>)"
    using save_ok [OF assms(6,7), of src' st1] rd remaining_rewind_seekable [of src'] by simp
  have su: "storeUpload w (multipart_File bytes) handler st =
          (uuid_New w @ ext, False, int (length bytes),
           st1\<lparr>files := (files st1)(filepath_Join w UploadDir (uuid_New w @ ext) \<mapsto> bytes),
               ops := ops st1 @ [OpCreate (filepath_Join w UploadDir (uuid_New w @ ext)),
                                 OpWrite (filepath_Join w UploadDir (uuid_New w @ ext))]\<rparr>)"
    using store_fallback [of w handler bytes st err src' st1] assms(2,3) c sv by simp
  show ?thesis
    using handleUpload_accepted [OF assms(1) su] assms(2,5) by simp
qed

theorem failed_conversion_falls_back_witness:
  "upload_accepted (post_file ''broken.png'' [0x00, 0x01, 0x02])
     \<lparr>fh_Filename = ''broken.png'', fh_Size = 3\<rparr> [0x00, 0x01, 0x02] \<and>
   ''.png'' = ToLower sample_world (Ext sample_world ''broken.png'') \<and>
   isImageFile ''.png'' \<and>
   fst (convertToWebP sample_world (multipart_File [0x00, 0x01, 0x02])
          (filepath_Join sample_world UploadDir (uuid_New sample_world @ ''.webp'')) ''.png''
          empty_state) = Inl DecodeFailed \<and>
   io_Copy_fault sample_world = None \<and>
   (\<exists>st'. handleUpload sample_world (post_file ''broken.png'' [0x00, 0x01, 0x02]) empty_state =
           (Created \<lparr>URL = ''http://localhost:4000/uploads/3f2b8c1e-77aa-4d0c-9e51-0b6d2f4a9c10.png'',
                     Filename = ''3f2b8c1e-77aa-4d0c-9e51-0b6d2f4a9c10.png'',
                     OriginalExt = ''.png'',
                     Size = 3,
                     Converted = False,
                     Message = ''File uploaded successfully''\<rparr>, st') \<and>
           files st' ''uploads/3f2b8c1e-77aa-4d0c-9e51-0b6d2f4a9c10.png'' =
             Some [0x00, 0x01, 0x02])"
proof -
  have a: "upload_accepted (post_file ''broken.png'' [0x00, 0x01, 0x02])
             \<lparr>fh_Filename = ''broken.png'', fh_Size = 3\<rparr> [0x00, 0x01, 0x02]"
    by (simp add: upload_accepted_def post_file_def maxRequestSize_def MaxFileSize_def)
  have e: "''.png'' = ToLower sample_world (Ext sample_world
             (fh_Filename \<lparr>fh_Filename = ''broken.png'', fh_Size = 3\<rparr>))"
    by (simp add: sample_world_def Ext_def ToLower_def isASCII_def lower_byte_def)
  have i: "isImageFile ''.png''" by (simp add: isImageFile_def)
  have d: "fst (convertToWebP sample_world (multipart_File [0x00, 0x01, 0x02])
                  (filepath_Join sample_world UploadDir (uuid_New sample_world @ ''.webp''))
                  ''.png'' empty_state) = Inl DecodeFailed"
    by (simp add: convertToWebP_def decoder_for_def sample_world_def signature_decoder_def
        multipart_File_def rewind_def remaining_def Let_def)
  have j: "filepath_Join sample_world UploadDir (uuid_New sample_world @ ''.png'') =
             ''uploads/3f2b8c1e-77aa-4d0c-9e51-0b6d2f4a9c10.png''"
     and u: "uuid_New sample_world = ''3f2b8c1e-77aa-4d0c-9e51-0b6d2f4a9c10''"
    by (simp_all add: sample_world_def UploadDir_def HasPrefix_def Join_def Clean_def)
  have c: "\<not> os_Create_fails sample_world p" for p by (simp add: sample_world_def)
  have f: "io_Copy_fault sample_world = None" by (simp add: sample_world_def)
  show ?thesis
    using failed_conversion_falls_back [OF a e i d _ c f] a e i d j u f
    by (simp add: BaseURL_def Port_def)
qed

section \<open>The empty PNG\<close>

text \<open>
  Claim C3, as stated, fails: the empty \<open>.png\<close> does not decode and the fallback writes its
  zero bytes, but the answer is the error \<open>Save failed\<close> with status 500, not a success
  with a size of zero.
\<close>

theorem empty_png_counterexample:
  "fst (png_Decode sample_world []) = None \<and>
   fst (handleUpload sample_world (post_file ''empty.png'' []) empty_state) =
     ErrorResponse ''Save failed'' 500 ''Could not save file''"
  by (simp add: upload_defs)

text \<open>
  Claim C3, amended. Uploading an empty file with the extension \<open>.png\<close>, where the PNG
  decoder rejects the empty input, results in a failed decode and then in the answer
  \<open>Save failed\<close> with status 500; if creating the fallback file and copying succeed, the
  zero-byte file is left at the identifier followed by \<open>.png\<close>.
\<close>

theorem empty_png_upload_fails:
  assumes "upload_accepted r handler []"
      and "ToLower w (Ext w (fh_Filename handler)) = ''.png''"
      and "fst (png_Decode w []) = None"
  shows "fst (convertToWebP w (multipart_File [])
                (filepath_Join w UploadDir (uuid_New w @ ''.webp'')) ''.png'' st) =
           Inl DecodeFailed \<and>
         fst (handleUpload w r st) = ErrorResponse ''Save failed'' 500 ''Could not save file'' \<and>
         (\<not> os_Create_fails w (filepath_Join w UploadDir (uuid_New w @ ''.png'')) \<and>
          io_Copy_fault w = None \<longrightarrow>
            files (snd (handleUpload w r st))
              (filepath_Join w UploadDir (uuid_New w @ ''.png'')) = Some [])"
proof -
  have dec: "decoder_for w ''.png'' = Some (png_Decode w)" by (simp add: decoder_for_def)
  have rem: "remaining (rewind (multipart_File [])) = []"
    by (simp add: remaining_def rewind_def multipart_File_def)
  from convert_decode_fails [OF dec, of "multipart_File []"] assms(3) rem
  obtain src' where c:
    "convertToWebP w (multipart_File []) (filepath_Join w UploadDir (uuid_New w @ ''.webp''))
       ''.png'' st = (Inl DecodeFailed, src', st)"
    by auto
  have rd: "content src' = [] \<and> seekable src'"
    using convertToWebP_reader [of w "multipart_File []"
        "filepath_Join w UploadDir (uuid_New w @ ''.webp'')" "''.png''" st] c
    by (simp add: multipart_File_def)
  have img: "isImageFile (ToLower w (Ext w (fh_Filename handler)))"
    using assms(2) by (simp add: isImageFile_def)
  obtain n st2 where sv:
    "saveOriginalFile w src' (filepath_Join w UploadDir (uuid_New w @ ''.png'')) st = (n, st2)"
    by (metis surj_pair)
  have n0: "n = 0"
    using save_empty [of src' w "filepath_Join w UploadDir (uuid_New w @ ''.png'')" st] rd sv
    by simp
  have su: "storeUpload w (multipart_File []) handler st = (uuid_New w @ ''.png'', False, 0, st2)"
    using store_fallback [of w handler "[]" st DecodeFailed src' st] img c sv n0 assms(2)
    by simp
  have hu: "handleUpload w r st = (ErrorResponse ''Save failed'' 500 ''Could not save file'', st2)"
    using handleUpload_accepted [OF assms(1) su] by simp
  have fl: "files st2 (filepath_Join w UploadDir (uuid_New w @ ''.png'')) = Some []"
    if "\<not> os_Create_fails w (filepath_Join w UploadDir (uuid_New w @ ''.png''))"
       "io_Copy_fault w = None"
    using save_ok [OF that, of src' st] sv rd remaining_rewind_seekable [of src'] by auto
  show ?thesis using c hu fl by simp
qed

theorem empty_png_upload_fails_witness:
  "upload_accepted (post_file ''empty.png'' []) \<lparr>fh_Filename = ''empty.png'', fh_Size = 0\<rparr> [] \<and>
   ToLower sample_world (Ext sample_world ''empty.png'') = ''.png'' \<and>
   fst (png_Decode sample_world []) = None \<and>
   io_Copy_fault sample_world = None \<and>
   fst (handleUpload sample_world (post_file ''empty.png'' []) empty_state) =
     ErrorResponse ''Save failed'' 500 ''Could not save file'' \<and>
   files (snd (handleUpload sample_world (post_file ''empty.png'' []) empty_state))
     ''uploads/3f2b8c1e-77aa-4d0c-9e51-0b6d2f4a9c10.png'' = Some []"
proof -
  have a: "upload_accepted (post_file ''empty.png'' [])
             \<lparr>fh_Filename = ''empty.png'', fh_Size = 0\<rparr> []"
    by (simp add: upload_accepted_def post_file_def maxRequestSize_def MaxFileSize_def)
  have e: "ToLower sample_world (Ext sample_world
             (fh_Filename \<lparr>fh_Filename = ''empty.png'', fh_Size = 0\<rparr>)) = ''.png''"
    by (simp add: sample_world_def Ext_def ToLower_def isASCII_def lower_byte_def)
  have d: "fst (png_Decode sample_world []) = None"
    by (simp add: sample_world_def signature_decoder_def)
  have j: "filepath_Join sample_world UploadDir (uuid_New sample_world @ ''.png'') =
             ''uploads/3f2b8c1e-77aa-4d0c-9e51-0b6d2f4a9c10.png''"
    by (simp add: sample_world_def UploadDir_def HasPrefix_def Join_def Clean_def)
  have c: "\<not> os_Create_fails sample_world p" for p by (simp add: sample_world_def)
  have f: "io_Copy_fault sample_world = None" by (simp add: sample_world_def)
  show ?thesis
    using empty_png_upload_fails [OF a e d, of empty_state] a e d j c f by simp
qed

section \<open>Cleaning up after a failed write\<close>

text \<open>
  Claim C7, as stated, fails: both writers call \<open>os.Remove\<close> on the destination and drop
  its result, so where the removal itself fails the partial file stays. Here the copy
  breaks after two bytes and the encoder fails after two bytes, and the removal fails.
\<close>

theorem cleanup_counterexample:
  "fst (saveOriginalFile (broken_copy_world\<lparr>os_Remove_fails := (\<lambda>p. True)\<rparr>)
          (multipart_File [0x25, 0x50, 0x44, 0x46]) ''uploads/doc.pdf'' empty_state) = 0 \<and>
   files (snd (saveOriginalFile (broken_copy_world\<lparr>os_Remove_fails := (\<lambda>p. True)\<rparr>)
                 (multipart_File [0x25, 0x50, 0x44, 0x46]) ''uploads/doc.pdf'' empty_state))
     ''uploads/doc.pdf'' = Some [0x25, 0x50] \<and>
   fst (convertToWebP (broken_encoder_world\<lparr>os_Remove_fails := (\<lambda>p. True)\<rparr>)
          (multipart_File tiny_png) ''uploads/pic.webp'' ''.png''
          empty_state) = Inl EncodeFailed \<and>
   files (snd (snd (convertToWebP (broken_encoder_world\<lparr>os_Remove_fails := (\<lambda>p. True)\<rparr>)
          (multipart_File tiny_png) ''uploads/pic.webp'' ''.png''
          empty_state)))
     ''uploads/pic.webp'' = Some [0x52, 0x49]"
  by (simp add: upload_defs)

text \<open>
  Claim C7, amended. When the encoding fails in \<open>convertToWebP\<close>, or the copy fails in
  \<open>saveOriginalFile\<close>, the function reports the failure, and the last thing it did to the
  file system, after creating the destination and writing to it, is a call of
  \<open>os.Remove\<close> on the destination; whenever that removal succeeds, no file is left at the
  destination path.
\<close>

theorem cleanup_on_failure:
  "(decoder_for w ext = Some dec \<and> dec (remaining (rewind src)) = (Some img, n) \<and>
    \<not> os_Create_fails w p \<and> webp_Encode w img False WebPQuality = (out, False) \<longrightarrow>
      fst (convertToWebP w src p ext st) = Inl EncodeFailed \<and>
      ops (snd (snd (convertToWebP w src p ext st))) =
        ops st @ [OpCreate p, OpWrite p, OpRemove p] \<and>
      (\<not> os_Remove_fails w p \<longrightarrow>
         files (snd (snd (convertToWebP w src p ext st))) p = None)) \<and>
   (\<not> os_Create_fails w p \<and> io_Copy_fault w = Some k \<longrightarrow>
      fst (saveOriginalFile w src p st) = 0 \<and>
      ops (snd (saveOriginalFile w src p st)) = ops st @ [OpCreate p, OpWrite p, OpRemove p] \<and>
      (\<not> os_Remove_fails w p \<longrightarrow> files (snd (saveOriginalFile w src p st)) p = None))"
proof -
  have a: "fst (convertToWebP w src p ext st) = Inl EncodeFailed \<and>
      ops (snd (snd (convertToWebP w src p ext st))) =
        ops st @ [OpCreate p, OpWrite p, OpRemove p] \<and>
      (\<not> os_Remove_fails w p \<longrightarrow>
         files (snd (snd (convertToWebP w src p ext st))) p = None)"
    if "decoder_for w ext = Some dec" "dec (remaining (rewind src)) = (Some img, n)"
       "\<not> os_Create_fails w p" "webp_Encode w img False WebPQuality = (out, False)"
    using that
    by (simp add: convertToWebP_def os_Create_def file_Write_def os_Remove_def log_op_def Let_def)
  have b: "fst (saveOriginalFile w src p st) = 0 \<and>
      ops (snd (saveOriginalFile w src p st)) = ops st @ [OpCreate p, OpWrite p, OpRemove p] \<and>
      (\<not> os_Remove_fails w p \<longrightarrow> files (snd (saveOriginalFile w src p st)) p = None)"
    if "\<not> os_Create_fails w p" "io_Copy_fault w = Some k"
    using save_copy_fault [OF that, of src st] by simp
  show ?thesis using a b by blast
qed

theorem cleanup_on_failure_witness:
  "decoder_for broken_encoder_world ''.png'' = Some (signature_decoder [0x89, 0x50, 0x4E, 0x47]) \<and>
   signature_decoder [0x89, 0x50, 0x4E, 0x47]
     (remaining (rewind (multipart_File tiny_png))) =
     (Some tiny_png, 70) \<and>
   \<not> os_Create_fails broken_encoder_world ''uploads/pic.webp'' \<and>
   webp_Encode broken_encoder_world tiny_png False WebPQuality =
     ([0x52, 0x49], False) \<and>
   \<not> os_Remove_fails broken_encoder_world ''uploads/pic.webp'' \<and>
   fst (convertToWebP broken_encoder_world (multipart_File tiny_png)
          ''uploads/pic.webp'' ''.png'' empty_state) = Inl EncodeFailed \<and>
   ops (snd (snd (convertToWebP broken_encoder_world
                    (multipart_File tiny_png)
                    ''uploads/pic.webp'' ''.png'' empty_state))) =
     [OpCreate ''uploads/pic.webp'', OpWrite ''uploads/pic.webp'', OpRemove ''uploads/pic.webp''] \<and>
   files (snd (snd (convertToWebP broken_encoder_world
                      (multipart_File tiny_png)
                      ''uploads/pic.webp'' ''.png'' empty_state)))
     ''uploads/pic.webp'' = None \<and>
   \<not> os_Create_fails broken_copy_world ''uploads/doc.pdf'' \<and>
   io_Copy_fault broken_copy_world = Some 2 \<and>
   \<not> os_Remove_fails broken_copy_world ''uploads/doc.pdf'' \<and>
   fst (saveOriginalFile broken_copy_world (multipart_File [0x25, 0x50, 0x44, 0x46])
          ''uploads/doc.pdf'' empty_state) = 0 \<and>
   ops (snd (saveOriginalFile broken_copy_world (multipart_File [0x25, 0x50, 0x44, 0x46])
               ''uploads/doc.pdf'' empty_state)) =
     [OpCreate ''uploads/doc.pdf'', OpWrite ''uploads/doc.pdf'', OpRemove ''uploads/doc.pdf''] \<and>
   files (snd (saveOriginalFile broken_copy_world (multipart_File [0x25, 0x50, 0x44, 0x46])
                 ''uploads/doc.pdf'' empty_state))
     ''uploads/doc.pdf'' = None"
  using cleanup_on_failure
          [of broken_encoder_world "''.png''" "signature_decoder [0x89, 0x50, 0x4E, 0x47]"
              "multipart_File tiny_png" tiny_png 70
              "''uploads/pic.webp''" "[0x52, 0x49]" empty_state 2]
        cleanup_on_failure
          [of broken_copy_world "''.png''" "signature_decoder [0x89, 0x50, 0x4E, 0x47]"
              "multipart_File [0x25, 0x50, 0x44, 0x46]" tiny_png 70
              "''uploads/doc.pdf''" "[0x52, 0x49]" empty_state 2]
  by (simp add: decoder_for_def sample_world_def signature_decoder_def multipart_File_def
      rewind_def remaining_def WebPQuality_def broken_encoder_world_def broken_copy_world_def
      empty_state_def tiny_png_def)

end
